theory Spec2Isabelle
  imports Complex_Main
begin

section \<open>JavaScript numbers\<close>

text \<open>
  The calculation module of money-master (\<^verbatim>\<open>src/lib/functions/mortgage.ts\<close>) works on
  JavaScript numbers: IEEE 754 doubles. A number is modelled as a real, or one of the three
  values that are not finite.
\<close>

datatype jsnum = Fin real | PInf | NInf | NaN

fun jneg :: "jsnum \<Rightarrow> jsnum" where
  "jneg (Fin a) = Fin (- a)"
| "jneg PInf = NInf"
| "jneg NInf = PInf"
| "jneg NaN = NaN"

subsection \<open>Rounding\<close>

text \<open>
  Every operation computes the exact result of its finite operands and rounds it. The
  rounding is a parameter \<open>rnd\<close> of the operations and of the module, so that the module is
  written once and read in two arithmetics:

  \<^item> \<open>binary64\<close>, the arithmetic of the code: round to nearest, ties to even, with 53
    bits of precision, exponents from \<open>-1022\<close> to \<open>1023\<close>, subnormal numbers below and
    an infinity from \<open>2 ^ 1024\<close> on;
  \<^item> \<open>exact\<close>, which does not round: the formulas of the module as formulas over the
    reals.

  There is one zero. The only divisor of the module that is computed rather than written
  as a literal is \<open>x - 1\<close>, which is \<open>+0\<close> when it is zero, so a zero divisor is taken as
  \<open>+0\<close>.
\<close>

definition round_half_even :: "real \<Rightarrow> int" where
  "round_half_even y =
     (let f = \<lfloor>y\<rfloor>; d = y - of_int f
      in if d < 1 / 2 then f
         else if 1 / 2 < d then f + 1
         else if even f then f else f + 1)"

text \<open>
  The exponent of a positive real: that of its binade, and \<open>-1022\<close> for the subnormal
  numbers. A double of exponent \<open>e\<close> is an integer multiple of \<open>2 ^ (e - 52)\<close>.
\<close>

definition binary64_exponent :: "real \<Rightarrow> int" where
  "binary64_exponent v = max \<lfloor>log 2 v\<rfloor> (- 1022)"

definition round_positive :: "real \<Rightarrow> jsnum" where
  "round_positive v =
     (let q = power_int 2 (binary64_exponent v - 52);
          w = of_int (round_half_even (v / q)) * q
      in if 2 ^ 1024 \<le> w then PInf else Fin w)"

definition binary64 :: "real \<Rightarrow> jsnum" where
  "binary64 v =
     (if v = 0 then Fin 0
      else if 0 < v then round_positive v
      else jneg (round_positive (- v)))"

abbreviation (input) exact :: "real \<Rightarrow> jsnum" where
  "exact \<equiv> Fin"

subsection \<open>Arithmetic\<close>

fun jadd :: "(real \<Rightarrow> jsnum) \<Rightarrow> jsnum \<Rightarrow> jsnum \<Rightarrow> jsnum" where
  "jadd rnd (Fin a) (Fin b) = rnd (a + b)"
| "jadd rnd NaN _ = NaN"
| "jadd rnd _ NaN = NaN"
| "jadd rnd PInf NInf = NaN"
| "jadd rnd NInf PInf = NaN"
| "jadd rnd PInf _ = PInf"
| "jadd rnd _ PInf = PInf"
| "jadd rnd NInf _ = NInf"
| "jadd rnd _ NInf = NInf"

definition jsub :: "(real \<Rightarrow> jsnum) \<Rightarrow> jsnum \<Rightarrow> jsnum \<Rightarrow> jsnum" where
  "jsub rnd a b = jadd rnd a (jneg b)"

text \<open>An infinity with the sign of a real factor; \<open>NaN\<close> when the factor is zero.\<close>

definition signed_inf :: "real \<Rightarrow> jsnum" where
  "signed_inf a = (if 0 < a then PInf else if a < 0 then NInf else NaN)"

fun jmul :: "(real \<Rightarrow> jsnum) \<Rightarrow> jsnum \<Rightarrow> jsnum \<Rightarrow> jsnum" where
  "jmul rnd (Fin a) (Fin b) = rnd (a * b)"
| "jmul rnd NaN _ = NaN"
| "jmul rnd _ NaN = NaN"
| "jmul rnd (Fin a) PInf = signed_inf a"
| "jmul rnd (Fin a) NInf = signed_inf (- a)"
| "jmul rnd PInf (Fin b) = signed_inf b"
| "jmul rnd NInf (Fin b) = signed_inf (- b)"
| "jmul rnd PInf PInf = PInf"
| "jmul rnd NInf NInf = PInf"
| "jmul rnd PInf NInf = NInf"
| "jmul rnd NInf PInf = NInf"

fun jdiv :: "(real \<Rightarrow> jsnum) \<Rightarrow> jsnum \<Rightarrow> jsnum \<Rightarrow> jsnum" where
  "jdiv rnd (Fin a) (Fin b) = (if b \<noteq> 0 then rnd (a / b) else signed_inf a)"
| "jdiv rnd NaN _ = NaN"
| "jdiv rnd _ NaN = NaN"
| "jdiv rnd (Fin a) PInf = Fin 0"
| "jdiv rnd (Fin a) NInf = Fin 0"
| "jdiv rnd PInf (Fin b) = (if 0 \<le> b then PInf else NInf)"
| "jdiv rnd NInf (Fin b) = (if 0 \<le> b then NInf else PInf)"
| "jdiv rnd PInf PInf = NaN"
| "jdiv rnd PInf NInf = NaN"
| "jdiv rnd NInf PInf = NaN"
| "jdiv rnd NInf NInf = NaN"

text \<open>
  \<^verbatim>\<open>Math.pow\<close>, case by case as ECMAScript's \<^verbatim>\<open>Number::exponentiate\<close> lists them. A finite
  base with a finite exponent is the real power, rounded: an integral exponent is computed
  by \<^const>\<open>power_int\<close>, any other exponent of a positive base by \<^const>\<open>powr\<close>, and a
  negative base with an exponent that is not integral gives \<open>NaN\<close>. (ECMAScript leaves the
  accuracy of \<^verbatim>\<open>Math.pow\<close> to the implementation; here it rounds as the other operations
  do.)
\<close>

definition is_integral :: "real \<Rightarrow> bool" where
  "is_integral e = (e = of_int \<lfloor>e\<rfloor>)"

definition is_odd_integral :: "real \<Rightarrow> bool" where
  "is_odd_integral e = (is_integral e \<and> odd \<lfloor>e\<rfloor>)"

definition real_pow :: "(real \<Rightarrow> jsnum) \<Rightarrow> real \<Rightarrow> real \<Rightarrow> jsnum" where
  "real_pow rnd b e =
     (if is_integral e then
        (if b = 0 \<and> e < 0 then PInf else rnd (power_int b \<lfloor>e\<rfloor>))
      else if 0 < b then rnd (b powr e)
      else if b = 0 then (if 0 < e then Fin 0 else PInf)
      else NaN)"

fun Math_pow :: "(real \<Rightarrow> jsnum) \<Rightarrow> jsnum \<Rightarrow> jsnum \<Rightarrow> jsnum" where
  "Math_pow rnd _ NaN = NaN"
| "Math_pow rnd b (Fin e) =
     (if e = 0 then Fin 1
      else case b of
        NaN \<Rightarrow> NaN
      | PInf \<Rightarrow> (if 0 < e then PInf else Fin 0)
      | NInf \<Rightarrow> (if 0 < e then (if is_odd_integral e then NInf else PInf) else Fin 0)
      | Fin a \<Rightarrow> real_pow rnd a e)"
| "Math_pow rnd NaN PInf = NaN"
| "Math_pow rnd NaN NInf = NaN"
| "Math_pow rnd PInf PInf = PInf"
| "Math_pow rnd NInf PInf = PInf"
| "Math_pow rnd PInf NInf = Fin 0"
| "Math_pow rnd NInf NInf = Fin 0"
| "Math_pow rnd (Fin a) PInf =
     (if 1 < \<bar>a\<bar> then PInf else if \<bar>a\<bar> = 1 then NaN else Fin 0)"
| "Math_pow rnd (Fin a) NInf =
     (if 1 < \<bar>a\<bar> then Fin 0 else if \<bar>a\<bar> = 1 then NaN else PInf)"

subsection \<open>\<^verbatim>\<open>parseFloat\<close>\<close>

text \<open>
  \<^verbatim>\<open>parseFloat\<close> skips leading white space (here the ASCII white space characters) and reads the longest prefix that is a decimal
  literal: an optional sign, then \<^verbatim>\<open>Infinity\<close>, or digits with an optional fraction, or a
  fraction alone, and an exponent when \<^verbatim>\<open>e\<close> is followed by digits. What comes after is
  ignored; with no such prefix the result is \<open>NaN\<close>. The value is the decimal, rounded.
\<close>

definition isDigit :: "char \<Rightarrow> bool" where
  "isDigit c = (c \<in> set ''0123456789'')"

definition isWhiteSpace :: "char \<Rightarrow> bool" where
  "isWhiteSpace c = (c \<in> set [CHR 0x09, CHR 0x0A, CHR 0x0B, CHR 0x0C, CHR 0x0D, CHR '' ''])"

definition digitsValue :: "string \<Rightarrow> nat" where
  "digitsValue ds = foldl (\<lambda>a c. 10 * a + (of_char c - 48)) 0 ds"

definition exponentPart :: "string \<Rightarrow> int" where
  "exponentPart s =
     (case s of
        [] \<Rightarrow> 0
      | c # r \<Rightarrow>
          if c = CHR ''e'' \<or> c = CHR ''E'' then
            (let neg = (r \<noteq> [] \<and> hd r = CHR ''-'');
                 r' = (if r \<noteq> [] \<and> (hd r = CHR ''-'' \<or> hd r = CHR ''+'') then tl r else r);
                 ds = takeWhile isDigit r'
             in if ds = [] then 0
                else if neg then - int (digitsValue ds) else int (digitsValue ds))
          else 0)"

definition parseUnsigned :: "(real \<Rightarrow> jsnum) \<Rightarrow> string \<Rightarrow> jsnum" where
  "parseUnsigned rnd s =
     (if take 8 s = ''Infinity'' then PInf
      else
        let ip = takeWhile isDigit s; r1 = dropWhile isDigit s
        in if r1 \<noteq> [] \<and> hd r1 = CHR ''.'' then
             (let fp = takeWhile isDigit (tl r1); r2 = dropWhile isDigit (tl r1)
              in if ip = [] \<and> fp = [] then NaN
                 else rnd ((real (digitsValue ip) + real (digitsValue fp) / 10 ^ length fp)
                           * power_int 10 (exponentPart r2)))
           else if ip = [] then NaN
           else rnd (real (digitsValue ip) * power_int 10 (exponentPart r1)))"

definition parseFloat :: "(real \<Rightarrow> jsnum) \<Rightarrow> string \<Rightarrow> jsnum" where
  "parseFloat rnd s =
     (let t = dropWhile isWhiteSpace s
      in if t \<noteq> [] \<and> hd t = CHR ''-'' then jneg (parseUnsigned rnd (tl t))
         else if t \<noteq> [] \<and> hd t = CHR ''+'' then parseUnsigned rnd (tl t)
         else parseUnsigned rnd t)"

section \<open>The calculation module\<close>

subsection \<open>Inputs\<close>

text \<open>
  \<^verbatim>\<open>type Inputs\<close>. \<^verbatim>\<open>getMonthlyMortgage\<close> takes
  \<^verbatim>\<open>Pick<Inputs, "principal" | "interestRate" | "loanTermYears">\<close>: the first three fields,
  of which \<open>Inputs\<close> is the extension.
\<close>

record MortgageInputs =
  principal :: jsnum
  interestRate :: string
  loanTermYears :: jsnum

record Inputs = MortgageInputs +
  pmiRate :: string
  insuranceRate :: string
  propertyTaxRate :: string

subsection \<open>\<^verbatim>\<open>getMonthlyMortgage\<close>\<close>

record MonthlyMortgage =
  monthlyPayment :: jsnum

definition getMonthlyMortgage ::
  "(real \<Rightarrow> jsnum) \<Rightarrow> 'a MortgageInputs_scheme \<Rightarrow> MonthlyMortgage" where
  "getMonthlyMortgage rnd inputs =
     (let monthlyRate =
            jdiv rnd (jdiv rnd (parseFloat rnd (interestRate inputs)) (Fin 100)) (Fin 12);
          numberOfPayments = jmul rnd (loanTermYears inputs) (Fin 12);
          x = Math_pow rnd (jadd rnd (Fin 1) monthlyRate) numberOfPayments;
          monthlyPayment =
            jdiv rnd (jmul rnd (jmul rnd (principal inputs) x) monthlyRate) (jsub rnd x (Fin 1))
      in \<lparr>monthlyPayment = monthlyPayment\<rparr>)"

subsection \<open>\<^verbatim>\<open>getTrueCostsOfHome\<close>\<close>

text \<open>
  The constants declared in the body of \<^verbatim>\<open>getTrueCostsOfHome\<close>, in the order of their
  declaration. The function returns eleven of them; the others
  (\<open>totalPrincipalAndInterest\<close> and \<open>monthlyMaintenanceRate\<close> among them) stay local.
  \<^verbatim>\<open>Number(loanTermYears)\<close> is \<open>loanTermYears\<close> itself, the field being a number.
\<close>

record TrueCostsScope =
  v_loanTermYearsNum :: jsnum
  v_pmiRateNum :: jsnum
  v_insuranceRateNum :: jsnum
  v_propertyTaxRateNum :: jsnum
  v_monthlyPmi :: jsnum
  v_annualInsurance :: jsnum
  v_monthlyInsurance :: jsnum
  v_numberOfPayments :: jsnum
  v_monthlyPayment :: jsnum
  v_totalPrincipalAndInterest :: jsnum
  v_totalPmi :: jsnum
  v_totalInsurance :: jsnum
  v_totalInterest :: jsnum
  v_yearlyPropertyTax :: jsnum
  v_monthlyPropertyTax :: jsnum
  v_totalPropertyTax :: jsnum
  v_annualMaintenanceRate :: jsnum
  v_monthlyMaintenanceRate :: jsnum
  v_totalMonthlyPayment :: jsnum
  v_totalCost :: jsnum

definition trueCostsScope :: "(real \<Rightarrow> jsnum) \<Rightarrow> Inputs \<Rightarrow> TrueCostsScope" where
  "trueCostsScope rnd inputs =
     (let loanTermYearsNum = loanTermYears inputs;
          pmiRateNum = parseFloat rnd (pmiRate inputs);
          insuranceRateNum = parseFloat rnd (insuranceRate inputs);
          propertyTaxRateNum = parseFloat rnd (propertyTaxRate inputs);
          monthlyPmi = jdiv rnd (jdiv rnd (jmul rnd (principal inputs) pmiRateNum) (Fin 100)) (Fin 12);
          annualInsurance = jmul rnd (principal inputs) (jdiv rnd insuranceRateNum (Fin 100));
          monthlyInsurance = jdiv rnd annualInsurance (Fin 12);
          numberOfPayments = jmul rnd (loanTermYears inputs) (Fin 12);
          monthlyPayment = monthlyPayment (getMonthlyMortgage rnd
             \<lparr>principal = principal inputs, interestRate = interestRate inputs,
              loanTermYears = loanTermYears inputs\<rparr>);
          totalPrincipalAndInterest = jmul rnd monthlyPayment numberOfPayments;
          totalPmi = jmul rnd monthlyPmi numberOfPayments;
          totalInsurance = jmul rnd monthlyInsurance numberOfPayments;
          totalInterest = jsub rnd totalPrincipalAndInterest (principal inputs);
          yearlyPropertyTax = jdiv rnd (jmul rnd (principal inputs) propertyTaxRateNum) (Fin 100);
          monthlyPropertyTax = jdiv rnd yearlyPropertyTax (Fin 12);
          totalPropertyTax = jmul rnd yearlyPropertyTax loanTermYearsNum;
          annualMaintenanceRate = jmul rnd (principal inputs) (parseFloat rnd ''3.00'');
          monthlyMaintenanceRate = jdiv rnd annualMaintenanceRate (Fin 12);
          totalMonthlyPayment =
            jadd rnd (jadd rnd (jadd rnd (jadd rnd monthlyPayment monthlyPmi) monthlyInsurance)
                   monthlyPropertyTax) monthlyMaintenanceRate;
          totalCost =
            jadd rnd (jadd rnd (jadd rnd totalPrincipalAndInterest totalPmi) totalInsurance)
              totalPropertyTax
      in \<lparr>v_loanTermYearsNum = loanTermYearsNum, v_pmiRateNum = pmiRateNum,
          v_insuranceRateNum = insuranceRateNum, v_propertyTaxRateNum = propertyTaxRateNum,
          v_monthlyPmi = monthlyPmi, v_annualInsurance = annualInsurance,
          v_monthlyInsurance = monthlyInsurance, v_numberOfPayments = numberOfPayments,
          v_monthlyPayment = monthlyPayment,
          v_totalPrincipalAndInterest = totalPrincipalAndInterest,
          v_totalPmi = totalPmi, v_totalInsurance = totalInsurance,
          v_totalInterest = totalInterest, v_yearlyPropertyTax = yearlyPropertyTax,
          v_monthlyPropertyTax = monthlyPropertyTax, v_totalPropertyTax = totalPropertyTax,
          v_annualMaintenanceRate = annualMaintenanceRate,
          v_monthlyMaintenanceRate = monthlyMaintenanceRate,
          v_totalMonthlyPayment = totalMonthlyPayment, v_totalCost = totalCost\<rparr>)"

record CostBreakdown =
  mortgagePayment :: jsnum
  totalInterest :: jsnum
  totalPmi :: jsnum
  totalInsurance :: jsnum
  totalMonthlyPayment :: jsnum
  totalCost :: jsnum
  yearlyPropertyTax :: jsnum
  monthlyPropertyTax :: jsnum
  monthlyInsurance :: jsnum
  monthlyPmi :: jsnum
  totalPropertyTax :: jsnum

definition getTrueCostsOfHome :: "(real \<Rightarrow> jsnum) \<Rightarrow> Inputs \<Rightarrow> CostBreakdown" where
  "getTrueCostsOfHome rnd inputs =
     (let s = trueCostsScope rnd inputs
      in \<lparr>mortgagePayment = v_monthlyPayment s,
          totalInterest = v_totalInterest s,
          totalPmi = v_totalPmi s,
          totalInsurance = v_totalInsurance s,
          totalMonthlyPayment = v_totalMonthlyPayment s,
          totalCost = v_totalCost s,
          yearlyPropertyTax = v_yearlyPropertyTax s,
          monthlyPropertyTax = v_monthlyPropertyTax s,
          monthlyInsurance = v_monthlyInsurance s,
          monthlyPmi = v_monthlyPmi s,
          totalPropertyTax = v_totalPropertyTax s\<rparr>)"

subsection \<open>\<^verbatim>\<open>getPropertyTaxByState\<close>\<close>

text \<open>
  The table \<^verbatim>\<open>@/lib/property-taxes/2023/rates.json\<close> is data outside the module: it is a
  parameter here, a list of rows. Every row has the state's name and the rate, a string such
  as \<^verbatim>\<open>0.41%\<close> (the form reads it with \<^verbatim>\<open>parseFloat\<close>). \<^verbatim>\<open>find\<close> gives the first row whose
  name is the argument, \<^verbatim>\<open>?.\<close> passes \<^verbatim>\<open>undefined\<close> on when there is none, and the function
  throws on \<^verbatim>\<open>undefined\<close>.
\<close>

datatype js_error = Error string

record TaxRow =
  State :: string
  EffectiveTaxRate2023 :: string

definition getPropertyTaxByState :: "TaxRow list \<Rightarrow> string \<Rightarrow> js_error + string" where
  "getPropertyTaxByState propertyTaxRates state =
     (let rate = map_option EffectiveTaxRate2023
                   (find (\<lambda>x. State x = state) propertyTaxRates)
      in case rate of
           None \<Rightarrow> Inl (Error ''Could not find state? Huh??'')
         | Some r \<Rightarrow> Inr r)"

section \<open>Inputs of the calculator\<close>

text \<open>
  The \<^verbatim>\<open>defaultValues\<close> of the form: a principal of 300000 at 4.5 percent over 30 years,
  with a PMI rate of 0.5 and insurance and property tax rates of 0.35 percent.
\<close>

definition defaultValues :: Inputs where
  "defaultValues =
     \<lparr>principal = Fin 300000, interestRate = ''4.5'', loanTermYears = Fin 30,
      pmiRate = ''0.5'', insuranceRate = ''0.35'', propertyTaxRate = ''0.35''\<rparr>"

section \<open>Auxiliary facts\<close>

subsection \<open>Rounding to a double\<close>

lemma round_half_even_close: "\<bar>of_int (round_half_even y) - y\<bar> \<le> 1 / 2"
proof -
  have "of_int \<lfloor>y\<rfloor> \<le> y" "y < of_int \<lfloor>y\<rfloor> + 1" by linarith+
  then show ?thesis
    unfolding round_half_even_def Let_def by (auto simp add: abs_le_iff)
qed

lemma round_half_even_of_int: "round_half_even (of_int z) = z"
  by (simp add: round_half_even_def)

lemma round_half_even_floor:
  "\<lfloor>y\<rfloor> \<le> round_half_even y \<and> round_half_even y \<le> \<lfloor>y\<rfloor> + 1"
  by (simp add: round_half_even_def Let_def)

lemma two_powi_pos: "0 < power_int (2::real) e"
  by (simp add: zero_less_power_int)


lemma floor_log2_bounds:
  assumes "0 < v"
  shows "power_int 2 \<lfloor>log 2 v\<rfloor> \<le> v \<and> v < power_int 2 (\<lfloor>log 2 v\<rfloor> + 1)"
proof -
  have "2 powr real_of_int \<lfloor>log 2 v\<rfloor> \<le> v \<and> v < 2 powr (real_of_int \<lfloor>log 2 v\<rfloor> + 1)"
    using floor_log_eq_powr_iff [of v 2 "\<lfloor>log 2 v\<rfloor>"] assms by simp
  moreover have "2 powr real_of_int k = power_int (2::real) k" for k
    by (rule powr_real_of_int') simp_all
  moreover have "real_of_int \<lfloor>log 2 v\<rfloor> + 1 = real_of_int (\<lfloor>log 2 v\<rfloor> + 1)" by simp
  ultimately show ?thesis by (simp only:)
qed

lemma floor_log2_eq:
  assumes "0 < v" "power_int 2 e \<le> v" "v < power_int 2 (e + 1)"
  shows "\<lfloor>log 2 v\<rfloor> = e"
proof -
  have p: "2 powr real_of_int k = power_int (2::real) k" for k
    by (rule powr_real_of_int') simp_all
  have "2 powr real_of_int e \<le> v" using assms(2) by (simp only: p)
  moreover have "v < 2 powr (real_of_int e + 1)"
    using assms(3) p [of "e + 1"] by simp
  ultimately show ?thesis
    using floor_log_eq_powr_iff [of v 2 e] assms(1) by simp
qed

lemma two_powi_mono: "a \<le> b \<Longrightarrow> power_int (2::real) a \<le> power_int 2 b"
  by (rule power_int_increasing) simp_all

lemma two_powi_less_iff: "power_int (2::real) a < power_int 2 b \<longleftrightarrow> a < b"
proof
  assume "power_int (2::real) a < power_int 2 b"
  then show "a < b" using two_powi_mono [of b a] by (cases "a < b") simp_all
next
  assume "a < b"
  then show "power_int (2::real) a < power_int 2 b" by (rule power_int_strict_increasing) simp
qed

lemma two_powi_le_iff: "power_int (2::real) a \<le> power_int 2 b \<longleftrightarrow> a \<le> b"
  using two_powi_less_iff [of b a] by (simp add: not_less [symmetric])

lemma two_powi_nat: "power_int (2::real) (int n) = 2 ^ n"
  by simp

text \<open>A positive real in the normal range is rounded with a relative error of at most 2^-53.\<close>

lemma two_pow_1024: "(2::real) ^ 1024 = power_int 2 1024"
  by (simp only: power_int_numeral)



text \<open>A positive real that is a multiple of the unit of its binade is not changed.\<close>

lemma round_positive_exact:
  assumes "power_int 2 e \<le> v" "v < power_int 2 (e + 1)" "- 1022 \<le> e" "e \<le> 1023"
    and z: "v / power_int 2 (e - 52) = of_int z"
  shows "round_positive v = Fin v"
proof -
  define q where "q = power_int (2::real) (e - 52)"
  have vpos: "0 < v" using assms(1) two_powi_pos [of e] by linarith
  have "\<lfloor>log 2 v\<rfloor> = e" using vpos assms(1,2) by (rule floor_log2_eq)
  then have ex: "binary64_exponent v = e" using assms(3) by (simp add: binary64_exponent_def)
  have qpos: "0 < q" unfolding q_def by (rule two_powi_pos)
  have m: "round_half_even (v / q) = z" unfolding q_def z by (rule round_half_even_of_int)
  have w: "of_int z * q = v" using z qpos by (simp add: q_def [symmetric] field_simps)
  have "e + 1 \<le> 1024" using assms(4) by simp
  then have "power_int (2::real) (e + 1) \<le> power_int 2 1024" by (rule two_powi_mono)
  then have "v < 2 ^ 1024" using assms(2) by (simp only: two_pow_1024)
  then have no: "\<not> 2 ^ 1024 \<le> v" by simp
  show ?thesis
    unfolding round_positive_def Let_def ex q_def [symmetric] m w using no by (simp only: if_False)
qed

lemma below_overflow:
  fixes v :: real
  assumes "v < power_int 2 k" "k \<le> 1024"
  shows "\<not> 2 ^ 1024 \<le> v"
proof -
  have "power_int (2::real) k \<le> power_int 2 1024" using assms(2) by (rule two_powi_mono)
  then have "v < 2 ^ 1024" using assms(1) by (simp only: two_pow_1024)
  then show ?thesis by simp
qed

lemma binary64_0: "binary64 0 = Fin 0"
  by (simp add: binary64_def)

lemma binary64_nat:
  assumes "n < 2 ^ 53"
  shows "binary64 (real n) = Fin (real n)"
proof (cases "n = 0")
  case True
  then show ?thesis by (simp add: binary64_0)
next
  case False
  define e where "e = \<lfloor>log 2 (real n)\<rfloor>"
  have npos: "0 < real n" using False by simp
  have eb: "power_int 2 e \<le> real n" "real n < power_int 2 (e + 1)"
    unfolding e_def using floor_log2_bounds [OF npos] by simp_all
  have "power_int (2::real) 0 \<le> real n" using False by simp
  then have "power_int (2::real) 0 < power_int 2 (e + 1)" using eb(2) by linarith
  then have "0 < e + 1" by (simp only: two_powi_less_iff)
  then have e0: "0 \<le> e" by simp
  have "real n < 2 ^ 53" using assms by (metis of_nat_less_iff of_nat_numeral of_nat_power)
  then have "power_int (2::real) e < power_int 2 53" using eb(1) by simp
  then have e53: "e < 53" by (simp only: two_powi_less_iff)
  have "real n / power_int 2 (e - 52) = real n * power_int 2 (52 - e)"
    using power_int_minus [of "2::real" "e - 52"] by (simp add: field_simps)
  also have "power_int (2::real) (52 - e) = 2 ^ nat (52 - e)"
    using e53 by (simp add: power_int_def)
  also have "real n * 2 ^ nat (52 - e) = of_int (int n * 2 ^ nat (52 - e))" by simp
  finally have z: "real n / power_int 2 (e - 52) = of_int (int n * 2 ^ nat (52 - e))" .
  have "round_positive (real n) = Fin (real n)"
    using eb _ _ z by (rule round_positive_exact) (use e0 e53 in simp_all)
  then show ?thesis using npos by (simp add: binary64_def)
qed

text \<open>Between 1 and 2 the doubles are \<open>2 ^ -52\<close> apart.\<close>

lemma binary64_one_to_two:
  assumes "1 \<le> v" "v < 2"
  shows "\<exists>w. binary64 v = Fin w \<and> \<bar>w - v\<bar> \<le> 1 / 2 ^ 53 \<and> 1 \<le> w"
proof -
  define m where "m = round_half_even (v * 2 ^ 52)"
  have "\<lfloor>log 2 v\<rfloor> = 0" using assms by (intro floor_log2_eq) simp_all
  then have ex: "binary64_exponent v = 0" by (simp add: binary64_exponent_def)
  have q: "power_int (2::real) (0 - 52) = 1 / 2 ^ 52"
    using power_int_minus_divide [of "2::real" 52] by (simp only: power_int_numeral diff_0)
  have vq: "v / (1 / 2 ^ 52) = v * 2 ^ 52" by simp
  have "\<bar>of_int m - v * 2 ^ 52\<bar> \<le> 1 / 2" unfolding m_def by (rule round_half_even_close)
  then have err: "\<bar>of_int m * (1 / 2 ^ 52) - v\<bar> \<le> 1 / 2 ^ 53"
    by (simp add: abs_le_iff field_simps)
  have "(2::real) ^ 52 \<le> v * 2 ^ 52" using assms(1) by simp
  then have "(2::int) ^ 52 \<le> \<lfloor>v * 2 ^ 52\<rfloor>" by (simp add: le_floor_iff)
  then have "(2::int) ^ 52 \<le> m" unfolding m_def using round_half_even_floor [of "v * 2 ^ 52"] by linarith
  then have "(2::real) ^ 52 \<le> of_int m" by (metis of_int_le_iff of_int_numeral of_int_power)
  then have ge1: "(1::real) \<le> of_int m * (1 / 2 ^ 52)" by simp
  have "of_int m * (1 / 2 ^ 52) \<le> v + 1 / 2 ^ 53" using err by linarith
  also have "\<dots> < power_int 2 2" using assms(2) by simp
  finally have no: "\<not> 2 ^ 1024 \<le> real_of_int m * (1 / 2 ^ 52)" by (rule below_overflow) simp
  have "round_positive v = Fin (of_int m * (1 / 2 ^ 52))"
    unfolding round_positive_def Let_def ex q vq m_def [symmetric] using no by (simp only: if_False)
  then have "binary64 v = Fin (of_int m * (1 / 2 ^ 52))"
    using assms(1) by (simp add: binary64_def)
  with err ge1 show ?thesis by blast
qed

text \<open>Adding at most half a unit to 1 gives 1.\<close>

lemma binary64_one_plus_tiny:
  assumes "0 \<le> t" "t \<le> 1 / 2 ^ 53"
  shows "binary64 (1 + t) = Fin 1"
proof -
  have "\<lfloor>log 2 (1 + t)\<rfloor> = 0" using assms by (intro floor_log2_eq) simp_all
  then have ex: "binary64_exponent (1 + t) = 0" by (simp add: binary64_exponent_def)
  have q: "power_int (2::real) (0 - 52) = 1 / 2 ^ 52"
    using power_int_minus_divide [of "2::real" 52] by (simp only: power_int_numeral diff_0)
  have vq: "(1 + t) / (1 / 2 ^ 52) = of_int (2 ^ 52) + t * 2 ^ 52" by (simp add: field_simps)
  have t: "0 \<le> t * 2 ^ 52" "t * 2 ^ 52 \<le> 1 / 2" using assms by (simp_all add: field_simps)
  then have fl: "\<lfloor>of_int (2 ^ 52) + t * 2 ^ 52\<rfloor> = 2 ^ 52"
    by (intro floor_unique) simp_all
  have m: "round_half_even (of_int (2 ^ 52) + t * 2 ^ 52) = 2 ^ 52"
    unfolding round_half_even_def Let_def fl using t by simp
  have w: "of_int (2 ^ 52) * (1 / 2 ^ 52) = (1::real)" by simp
  have no: "\<not> 2 ^ 1024 \<le> (1::real)" by (rule below_overflow [of _ 1]) simp_all
  have "round_positive (1 + t) = Fin 1"
    unfolding round_positive_def Let_def ex q vq m w using no by (simp only: if_False)
  then show ?thesis using assms(1) by (simp add: binary64_def)
qed

subsection \<open>Reading the rates\<close>

lemmas parseFloat_defs =
  parseFloat_def parseUnsigned_def isDigit_def isWhiteSpace_def digitsValue_def exponentPart_def

lemma parseFloat_3_00: "parseFloat rnd ''3.00'' = rnd 3"
  by (simp add: parseFloat_defs)

lemma parseFloat_4_5: "parseFloat rnd ''4.5'' = rnd (9 / 2)"
  by (simp add: parseFloat_defs)

lemma parseFloat_0_5: "parseFloat rnd ''0.5'' = rnd (1 / 2)"
  by (simp add: parseFloat_defs)

lemma parseFloat_0_35: "parseFloat rnd ''0.35'' = rnd (7 / 20)"
  by (simp add: parseFloat_defs)

lemma parseFloat_0: "parseFloat rnd ''0'' = rnd 0"
  by (simp add: parseFloat_defs)


lemma binary64_numeral:
  assumes "numeral k < (2::nat) ^ 53"
  shows "binary64 (numeral k) = Fin (numeral k)"
  using binary64_nat [OF assms] by simp

lemma binary64_1: "binary64 1 = Fin 1"
  using binary64_one_plus_tiny [of 0] by simp


subsection \<open>A rate too small for a double\<close>



subsection \<open>The annuity formula over the reals\<close>

lemma real_pow_pos: "0 < b \<Longrightarrow> real_pow exact b e = Fin (b powr e)"
proof -
  assume b: "0 < b"
  show ?thesis
  proof (cases "is_integral e")
    case True
    then have e: "e = real_of_int \<lfloor>e\<rfloor>" by (simp add: is_integral_def)
    have "b powr real_of_int \<lfloor>e\<rfloor> = power_int b \<lfloor>e\<rfloor>"
      using b by (intro powr_real_of_int') simp_all
    with e have "power_int b \<lfloor>e\<rfloor> = b powr e" by simp
    with True b show ?thesis by (simp add: real_pow_def)
  next
    case False
    with b show ?thesis by (simp add: real_pow_def)
  qed
qed

lemma Math_pow_pos: "0 < b \<Longrightarrow> Math_pow exact (Fin b) (Fin e) = Fin (b powr e)"
  by (simp add: real_pow_pos)


lemma getMonthlyMortgage_pos_rate:
  assumes "principal inputs = Fin P" "parseFloat exact (interestRate inputs) = Fin r" "0 < r"
    "loanTermYears inputs = Fin T" "0 < T"
  shows "monthlyPayment (getMonthlyMortgage exact inputs) =
    Fin (P * (1 + r / 100 / 12) powr (T * 12) * (r / 100 / 12) / ((1 + r / 100 / 12) powr (T * 12) - 1))"
proof -
  define i where "i = r / 100 / 12"
  define n where "n = T * 12"
  define x where "x = (1 + i) powr n"
  have i: "0 < i" using assms(3) by (simp add: i_def)
  have n: "0 < n" using assms(5) by (simp add: n_def)
  have "1 < x" unfolding x_def using i n by (intro gr_one_powr) simp_all
  then have nz: "x - 1 \<noteq> 0" by simp
  have mr: "jdiv exact (jdiv exact (Fin r) (Fin 100)) (Fin 12) = Fin i" by (simp add: i_def)
  have np: "jmul exact (Fin T) (Fin 12) = Fin n" by (simp add: n_def)
  have px: "Math_pow exact (jadd exact (Fin 1) (Fin i)) (Fin n) = Fin x"
    using i by (simp only: jadd.simps x_def Math_pow_pos)
  have "jdiv exact (jmul exact (jmul exact (Fin P) (Fin x)) (Fin i)) (jsub exact (Fin x) (Fin 1)) = Fin (P * x * i / (x - 1))"
    using nz by (simp add: jsub_def)
  then have "monthlyPayment (getMonthlyMortgage exact inputs) = Fin (P * x * i / (x - 1))"
    unfolding getMonthlyMortgage_def Let_def assms(1,2,4) mr np px by simp
  then show ?thesis by (simp only: x_def i_def n_def)
qed

subsection \<open>The constants of \<^verbatim>\<open>getTrueCostsOfHome\<close>\<close>

lemma defaultValues_fields:
  "principal defaultValues = Fin 300000"
  "interestRate defaultValues = ''4.5''"
  "loanTermYears defaultValues = Fin 30"
  "pmiRate defaultValues = ''0.5''"
  "insuranceRate defaultValues = ''0.35''"
  "propertyTaxRate defaultValues = ''0.35''"
  by (simp_all add: defaultValues_def)

lemma getMonthlyMortgage_zero_rate:
  assumes rnd: "rnd 0 = Fin 0" "rnd 1 = Fin 1"
    and "principal inputs = Fin P" "parseFloat rnd (interestRate inputs) = Fin 0"
    "loanTermYears inputs = Fin T"
  shows "monthlyPayment (getMonthlyMortgage rnd inputs) = NaN"
proof -
  have i: "jdiv rnd (jdiv rnd (Fin 0) (Fin 100)) (Fin 12) = Fin 0" by (simp add: rnd)
  have s: "jadd rnd (Fin 1) (Fin 0) = Fin 1" by (simp add: rnd)
  have d: "jsub rnd (Fin 1) (Fin 1) = Fin 0" by (simp add: jsub_def rnd)
  have z: "jmul rnd (jmul rnd (Fin P) (Fin 1)) (Fin 0) = Fin 0 \<or>
           jmul rnd (jmul rnd (Fin P) (Fin 1)) (Fin 0) = NaN"
    by (cases "rnd (P * 1)") (simp_all add: rnd signed_inf_def)
  have x: "Math_pow rnd (Fin 1) n = Fin 1 \<or> Math_pow rnd (Fin 1) n = NaN" for n
    by (cases n) (simp_all add: real_pow_def rnd)
  have "jdiv rnd (jmul rnd (jmul rnd (Fin P) (Math_pow rnd (Fin 1) n)) (Fin 0))
          (jsub rnd (Math_pow rnd (Fin 1) n) (Fin 1)) = NaN" for n
    using x [of n] z by (auto simp add: d rnd signed_inf_def jsub_def)
  then show ?thesis
    unfolding getMonthlyMortgage_def Let_def assms(3,4,5) i s by simp
qed

lemma getMonthlyMortgage_pick:
  "getMonthlyMortgage rnd \<lparr>principal = principal inputs, interestRate = interestRate inputs,
      loanTermYears = loanTermYears inputs\<rparr> = getMonthlyMortgage rnd inputs"
  by (simp add: getMonthlyMortgage_def)

lemma getTrueCostsOfHome_fields:
  "mortgagePayment (getTrueCostsOfHome rnd inputs) = v_monthlyPayment (trueCostsScope rnd inputs)"
  "totalInterest (getTrueCostsOfHome rnd inputs) = v_totalInterest (trueCostsScope rnd inputs)"
  "totalPmi (getTrueCostsOfHome rnd inputs) = v_totalPmi (trueCostsScope rnd inputs)"
  "totalInsurance (getTrueCostsOfHome rnd inputs) = v_totalInsurance (trueCostsScope rnd inputs)"
  "totalMonthlyPayment (getTrueCostsOfHome rnd inputs) =
     v_totalMonthlyPayment (trueCostsScope rnd inputs)"
  "totalCost (getTrueCostsOfHome rnd inputs) = v_totalCost (trueCostsScope rnd inputs)"
  "yearlyPropertyTax (getTrueCostsOfHome rnd inputs) =
     v_yearlyPropertyTax (trueCostsScope rnd inputs)"
  "monthlyPropertyTax (getTrueCostsOfHome rnd inputs) =
     v_monthlyPropertyTax (trueCostsScope rnd inputs)"
  "monthlyInsurance (getTrueCostsOfHome rnd inputs) =
     v_monthlyInsurance (trueCostsScope rnd inputs)"
  "monthlyPmi (getTrueCostsOfHome rnd inputs) = v_monthlyPmi (trueCostsScope rnd inputs)"
  "totalPropertyTax (getTrueCostsOfHome rnd inputs) =
     v_totalPropertyTax (trueCostsScope rnd inputs)"
  by (simp_all add: getTrueCostsOfHome_def Let_def)

subsection \<open>The default loan in numbers\<close>

text \<open>
  Bounds on \<open>(803 / 800) ^ 360\<close>, the compound factor of the default loan, by repeated
  squaring on intervals with twelve decimals.
\<close>

lemma square_step:
  fixes x l u l' u' :: real
  assumes "l \<le> x" "x \<le> u" "0 \<le> l" "l' \<le> l * l" "u * u \<le> u'"
  shows "l' \<le> x * x \<and> x * x \<le> u'"
proof -
  have "l * l \<le> x * x" using assms(1,3) by (intro mult_mono) simp_all
  moreover have "x * x \<le> u * u" using assms(1,2,3) by (intro mult_mono) simp_all
  ultimately show ?thesis using assms(4,5) by simp
qed

lemma square_times_step:
  fixes x l u l' u' b :: real
  assumes "l \<le> x" "x \<le> u" "0 \<le> l" "0 \<le> b" "l' \<le> l * l * b" "u * u * b \<le> u'"
  shows "l' \<le> x * x * b \<and> x * x * b \<le> u'"
proof -
  have "l * l \<le> x * x \<and> x * x \<le> u * u"
    using assms(1,2,3) by (intro square_step [of l x u]) simp_all
  then have "l * l * b \<le> x * x * b" "x * x * b \<le> u * u * b"
    using assms(4) by (simp_all add: mult_right_mono)
  then show ?thesis using assms(5,6) by simp
qed

lemma compound_factor_360:
  fixes b :: real
  assumes b: "b = 803 / 800"
  shows "3847698049857 / 1000000000000 \<le> b ^ 360 \<and> b ^ 360 \<le> 961924512581 / 250000000000"
proof -
  have p1: "803 / 800 \<le> b ^ 1 \<and> b ^ 1 \<le> 803 / 800" by (simp add: b)
  have "(2::nat) = 1 + 1" by simp
  then have e2: "b ^ 2 = b ^ 1 * b ^ 1"
    by (simp only: power_add)
  have p2: "644809 / 640000 \<le> b ^ 2 \<and> b ^ 2 \<le> 644809 / 640000"
    unfolding e2 by (rule square_step [OF conjunct1 [OF p1] conjunct2 [OF p1]]) simp_all
  have "(5::nat) = 2 + 2 + 1" by simp
  then have e5: "b ^ 5 = b ^ 2 * b ^ 2 * b"
    by (simp only: power_add power_one_right)
  have p5: "1018891153333 / 1000000000000 \<le> b ^ 5 \<and> b ^ 5 \<le> 509445576667 / 500000000000"
    unfolding e5 by (rule square_times_step [OF conjunct1 [OF p2] conjunct2 [OF p2]]) (simp_all add: b)
  have "(11::nat) = 5 + 5 + 1" by simp
  then have e11: "b ^ 11 = b ^ 5 * b ^ 5 * b"
    by (simp only: power_add power_one_right)
  have p11: "521016102137 / 500000000000 \<le> b ^ 11 \<and> b ^ 11 \<le> 1042032204277 / 1000000000000"
    unfolding e11 by (rule square_times_step [OF conjunct1 [OF p5] conjunct2 [OF p5]]) (simp_all add: b)
  have "(22::nat) = 11 + 11" by simp
  then have e22: "b ^ 22 = b ^ 11 * b ^ 11"
    by (simp only: power_add)
  have p22: "135728889343 / 125000000000 \<le> b ^ 22 \<and> b ^ 22 \<le> 1085831114751 / 1000000000000"
    unfolding e22 by (rule square_step [OF conjunct1 [OF p11] conjunct2 [OF p11]]) simp_all
  have "(45::nat) = 22 + 22 + 1" by simp
  then have e45: "b ^ 45 = b ^ 22 * b ^ 22 * b"
    by (simp only: power_add power_one_right)
  have p45: "591725284641 / 500000000000 \<le> b ^ 45 \<and> b ^ 45 \<le> 1183450569299 / 1000000000000"
    unfolding e45 by (rule square_times_step [OF conjunct1 [OF p22] conjunct2 [OF p22]]) (simp_all add: b)
  have "(90::nat) = 45 + 45" by simp
  then have e90: "b ^ 90 = b ^ 45 * b ^ 45"
    by (simp only: power_add)
  have p90: "1400555249933 / 1000000000000 \<le> b ^ 90 \<and> b ^ 90 \<le> 56022209999 / 40000000000"
    unfolding e90 by (rule square_step [OF conjunct1 [OF p45] conjunct2 [OF p45]]) simp_all
  have "(180::nat) = 90 + 90" by simp
  then have e180: "b ^ 180 = b ^ 90 * b ^ 90"
    by (simp only: power_add)
  have p180: "980777504057 / 500000000000 \<le> b ^ 180 \<and> b ^ 180 \<le> 1961555008233 / 1000000000000"
    unfolding e180 by (rule square_step [OF conjunct1 [OF p90] conjunct2 [OF p90]]) simp_all
  have "(360::nat) = 180 + 180" by simp
  then have e360: "b ^ 360 = b ^ 180 * b ^ 180"
    by (simp only: power_add)
  have p360: "3847698049857 / 1000000000000 \<le> b ^ 360 \<and> b ^ 360 \<le> 961924512581 / 250000000000"
    unfolding e360 by (rule square_step [OF conjunct1 [OF p180] conjunct2 [OF p180]]) simp_all
  show ?thesis by (rule p360)
qed

lemma annuity_bounds:
  fixes x :: real
  assumes "3847698049857 / 1000000000000 \<le> x" "x \<le> 961924512581 / 250000000000"
  shows "1520.055 < 300000 * (9 / 2 / 100 / 12) * x / (x - 1) \<and>
         300000 * (9 / 2 / 100 / 12) * x / (x - 1) < 1520.06"
proof -
  have x1: "0 < x - 1" using assms(1) by simp
  have "1520.055 * (x - 1) < 1125 * x" using assms by simp
  then have lo: "1520.055 < 1125 * x / (x - 1)" using x1 by (simp add: pos_less_divide_eq)
  have "1125 * x < 1520.06 * (x - 1)" using assms by simp
  then have hi: "1125 * x / (x - 1) < 1520.06" using x1 by (simp add: pos_divide_less_eq)
  have "300000 * (9 / 2 / 100 / 12) * x / (x - 1) = 1125 * x / (x - 1)" by simp
  with lo hi show ?thesis by simp
qed

lemma defaultValues_exact:
  "principal defaultValues = Fin 300000"
  "parseFloat exact (interestRate defaultValues) = Fin (9 / 2)"
  "loanTermYears defaultValues = Fin 30"
  "parseFloat exact (pmiRate defaultValues) = Fin (1 / 2)"
  "parseFloat exact (insuranceRate defaultValues) = Fin (7 / 20)"
  "parseFloat exact (propertyTaxRate defaultValues) = Fin (7 / 20)"
  by (simp_all add: defaultValues_def parseFloat_4_5 parseFloat_0_5 parseFloat_0_35)

lemma trueCostsScope_exact:
  assumes "principal inputs = Fin P" "loanTermYears inputs = Fin T"
    "parseFloat exact (pmiRate inputs) = Fin a" "parseFloat exact (insuranceRate inputs) = Fin b"
    "parseFloat exact (propertyTaxRate inputs) = Fin c"
    "monthlyPayment (getMonthlyMortgage exact inputs) = Fin M"
  shows "trueCostsScope exact inputs =
     \<lparr>v_loanTermYearsNum = Fin T, v_pmiRateNum = Fin a,
      v_insuranceRateNum = Fin b, v_propertyTaxRateNum = Fin c,
      v_monthlyPmi = Fin (P * a / 100 / 12), v_annualInsurance = Fin (P * (b / 100)),
      v_monthlyInsurance = Fin (P * (b / 100) / 12), v_numberOfPayments = Fin (T * 12),
      v_monthlyPayment = Fin M,
      v_totalPrincipalAndInterest = Fin (M * (T * 12)),
      v_totalPmi = Fin (P * a / 100 / 12 * (T * 12)),
      v_totalInsurance = Fin (P * (b / 100) / 12 * (T * 12)),
      v_totalInterest = Fin (M * (T * 12) - P),
      v_yearlyPropertyTax = Fin (P * c / 100),
      v_monthlyPropertyTax = Fin (P * c / 100 / 12),
      v_totalPropertyTax = Fin (P * c / 100 * T),
      v_annualMaintenanceRate = Fin (P * 3),
      v_monthlyMaintenanceRate = Fin (P * 3 / 12),
      v_totalMonthlyPayment =
        Fin (M + P * a / 100 / 12 + P * (b / 100) / 12 + P * c / 100 / 12 + P * 3 / 12),
      v_totalCost =
        Fin (M * (T * 12) + P * a / 100 / 12 * (T * 12) + P * (b / 100) / 12 * (T * 12)
             + P * c / 100 * T)\<rparr>"
  unfolding trueCostsScope_def Let_def getMonthlyMortgage_pick
  unfolding assms parseFloat_3_00
  by (simp add: jsub_def)

text \<open>The constants of the scope, each by the expression that the code computes it with.\<close>

lemma trueCostsScope_fields:
  "v_monthlyPayment (trueCostsScope rnd inputs) = monthlyPayment (getMonthlyMortgage rnd inputs)"
  "v_numberOfPayments (trueCostsScope rnd inputs) = jmul rnd (loanTermYears inputs) (Fin 12)"
  "v_monthlyPmi (trueCostsScope rnd inputs) =
     jdiv rnd (jdiv rnd (jmul rnd (principal inputs) (parseFloat rnd (pmiRate inputs))) (Fin 100))
       (Fin 12)"
  "v_monthlyInsurance (trueCostsScope rnd inputs) =
     jdiv rnd (jmul rnd (principal inputs)
       (jdiv rnd (parseFloat rnd (insuranceRate inputs)) (Fin 100))) (Fin 12)"
  "v_yearlyPropertyTax (trueCostsScope rnd inputs) =
     jdiv rnd (jmul rnd (principal inputs) (parseFloat rnd (propertyTaxRate inputs))) (Fin 100)"
  "v_monthlyPropertyTax (trueCostsScope rnd inputs) =
     jdiv rnd (v_yearlyPropertyTax (trueCostsScope rnd inputs)) (Fin 12)"
  "v_monthlyMaintenanceRate (trueCostsScope rnd inputs) =
     jdiv rnd (jmul rnd (principal inputs) (rnd 3)) (Fin 12)"
  "v_totalPrincipalAndInterest (trueCostsScope rnd inputs) =
     jmul rnd (v_monthlyPayment (trueCostsScope rnd inputs))
       (v_numberOfPayments (trueCostsScope rnd inputs))"
  "v_totalPmi (trueCostsScope rnd inputs) =
     jmul rnd (v_monthlyPmi (trueCostsScope rnd inputs))
       (v_numberOfPayments (trueCostsScope rnd inputs))"
  "v_totalInsurance (trueCostsScope rnd inputs) =
     jmul rnd (v_monthlyInsurance (trueCostsScope rnd inputs))
       (v_numberOfPayments (trueCostsScope rnd inputs))"
  "v_totalPropertyTax (trueCostsScope rnd inputs) =
     jmul rnd (v_yearlyPropertyTax (trueCostsScope rnd inputs)) (loanTermYears inputs)"
  "v_totalInterest (trueCostsScope rnd inputs) =
     jsub rnd (v_totalPrincipalAndInterest (trueCostsScope rnd inputs)) (principal inputs)"
  "v_totalMonthlyPayment (trueCostsScope rnd inputs) =
     jadd rnd (jadd rnd (jadd rnd (jadd rnd (v_monthlyPayment (trueCostsScope rnd inputs))
                                     (v_monthlyPmi (trueCostsScope rnd inputs)))
                           (v_monthlyInsurance (trueCostsScope rnd inputs)))
                 (v_monthlyPropertyTax (trueCostsScope rnd inputs)))
       (v_monthlyMaintenanceRate (trueCostsScope rnd inputs))"
  "v_totalCost (trueCostsScope rnd inputs) =
     jadd rnd (jadd rnd (jadd rnd (v_totalPrincipalAndInterest (trueCostsScope rnd inputs))
                           (v_totalPmi (trueCostsScope rnd inputs)))
                 (v_totalInsurance (trueCostsScope rnd inputs)))
       (v_totalPropertyTax (trueCostsScope rnd inputs))"
  by (simp_all add: trueCostsScope_def Let_def getMonthlyMortgage_pick parseFloat_3_00)

section \<open>The claims\<close>

subsection \<open>The monthly payment\<close>





subsection \<open>The cost breakdown\<close>



subsection \<open>The property tax of a state\<close>

text \<open>
  Claim C9. \<^verbatim>\<open>getPropertyTaxByState\<close> throws exactly when no row of the table has the
  state's name. When there is such a row it returns the rate of the first one, which is
  the rate of the row with that name when the table has one row for each name.
\<close>

theorem getPropertyTaxByState_throws_iff_absent:
  "((\<exists>e. getPropertyTaxByState propertyTaxRates state = Inl e) \<longleftrightarrow>
      (\<forall>row \<in> set propertyTaxRates. State row \<noteq> state)) \<and>
   (\<forall>row. find (\<lambda>x. State x = state) propertyTaxRates = Some row \<longrightarrow>
      getPropertyTaxByState propertyTaxRates state = Inr (EffectiveTaxRate2023 row)) \<and>
   ((\<exists>row \<in> set propertyTaxRates. State row = state) \<longrightarrow>
      (\<exists>row \<in> set propertyTaxRates. State row = state \<and>
         getPropertyTaxByState propertyTaxRates state = Inr (EffectiveTaxRate2023 row))) \<and>
   (distinct (map State propertyTaxRates) \<longrightarrow>
      (\<forall>row \<in> set propertyTaxRates. State row = state \<longrightarrow>
         getPropertyTaxByState propertyTaxRates state = Inr (EffectiveTaxRate2023 row)))"
proof (intro conjI)
  show "(\<exists>e. getPropertyTaxByState propertyTaxRates state = Inl e) \<longleftrightarrow>
      (\<forall>row \<in> set propertyTaxRates. State row \<noteq> state)"
  proof -
    have "(\<exists>e. getPropertyTaxByState propertyTaxRates state = Inl e) \<longleftrightarrow>
        find (\<lambda>x. State x = state) propertyTaxRates = None"
      by (cases "find (\<lambda>x. State x = state) propertyTaxRates")
        (simp_all add: getPropertyTaxByState_def)
    then show ?thesis by (auto simp add: find_None_iff)
  qed
next
  show "\<forall>row. find (\<lambda>x. State x = state) propertyTaxRates = Some row \<longrightarrow>
      getPropertyTaxByState propertyTaxRates state = Inr (EffectiveTaxRate2023 row)"
    by (simp add: getPropertyTaxByState_def)
next
  show "(\<exists>row \<in> set propertyTaxRates. State row = state) \<longrightarrow>
      (\<exists>row \<in> set propertyTaxRates. State row = state \<and>
         getPropertyTaxByState propertyTaxRates state = Inr (EffectiveTaxRate2023 row))"
  proof
    assume "\<exists>row \<in> set propertyTaxRates. State row = state"
    then have "find (\<lambda>x. State x = state) propertyTaxRates \<noteq> None"
      by (auto simp add: find_None_iff)
    then obtain row where r: "find (\<lambda>x. State x = state) propertyTaxRates = Some row" by blast
    then have "row \<in> set propertyTaxRates" "State row = state"
      by (auto simp add: find_Some_iff)
    moreover from r have "getPropertyTaxByState propertyTaxRates state = Inr (EffectiveTaxRate2023 row)"
      by (simp add: getPropertyTaxByState_def)
    ultimately show "\<exists>row \<in> set propertyTaxRates. State row = state \<and>
         getPropertyTaxByState propertyTaxRates state = Inr (EffectiveTaxRate2023 row)" by blast
  qed
next
  show "distinct (map State propertyTaxRates) \<longrightarrow>
      (\<forall>row \<in> set propertyTaxRates. State row = state \<longrightarrow>
         getPropertyTaxByState propertyTaxRates state = Inr (EffectiveTaxRate2023 row))"
  proof (intro impI ballI)
    fix row assume d: "distinct (map State propertyTaxRates)"
      and m: "row \<in> set propertyTaxRates" and s: "State row = state"
    have "find (\<lambda>x. State x = state) propertyTaxRates = Some row"
      using d m s
    proof (induction propertyTaxRates)
      case Nil then show ?case by simp
    next
      case (Cons x xs) then show ?case by (auto simp add: image_iff)
    qed
    then show "getPropertyTaxByState propertyTaxRates state = Inr (EffectiveTaxRate2023 row)"
      by (simp add: getPropertyTaxByState_def)
  qed
qed

theorem getPropertyTaxByState_throws_iff_absent_witness:
  "getPropertyTaxByState
     [\<lparr>State = ''Alabama'', EffectiveTaxRate2023 = ''0.41%''\<rparr>,
      \<lparr>State = ''Alaska'', EffectiveTaxRate2023 = ''1.04%''\<rparr>] ''Alabama'' = Inr ''0.41%'' \<and>
   (\<exists>e. getPropertyTaxByState
     [\<lparr>State = ''Alabama'', EffectiveTaxRate2023 = ''0.41%''\<rparr>,
      \<lparr>State = ''Alaska'', EffectiveTaxRate2023 = ''1.04%''\<rparr>] ''Atlantis'' = Inl e)"
  using getPropertyTaxByState_throws_iff_absent
      [of "[\<lparr>State = ''Alabama'', EffectiveTaxRate2023 = ''0.41%''\<rparr>,
            \<lparr>State = ''Alaska'', EffectiveTaxRate2023 = ''1.04%''\<rparr>]" "''Alabama''"]
    getPropertyTaxByState_throws_iff_absent
      [of "[\<lparr>State = ''Alabama'', EffectiveTaxRate2023 = ''0.41%''\<rparr>,
            \<lparr>State = ''Alaska'', EffectiveTaxRate2023 = ''1.04%''\<rparr>]" "''Atlantis''"]
  by simp

subsection \<open>Maintenance, the zero rate and the interest rate\<close>

text \<open>
  Claim C1 says that the monthly maintenance added into \<open>totalMonthlyPayment\<close> is
  \<open>principal * 3 / 100 / 12\<close>, three percent of the principal a year. The code multiplies
  the principal by \<^verbatim>\<open>parseFloat("3.00")\<close> and never divides by 100: for the default loan
  the monthly maintenance is 75000, not 750, and 75000 is what the monthly total gets, in
  doubles as over the reals.
\<close>

theorem monthly_maintenance_at_defaultValues:
  "(v_monthlyMaintenanceRate (trueCostsScope exact defaultValues) = Fin 75000 \<and>
    v_monthlyMaintenanceRate (trueCostsScope exact defaultValues) \<noteq> Fin (300000 * 3 / 100 / 12) \<and>
    totalMonthlyPayment (getTrueCostsOfHome exact defaultValues) =
      jadd exact (jadd exact (jadd exact (jadd exact
          (mortgagePayment (getTrueCostsOfHome exact defaultValues))
          (monthlyPmi (getTrueCostsOfHome exact defaultValues)))
          (monthlyInsurance (getTrueCostsOfHome exact defaultValues)))
          (monthlyPropertyTax (getTrueCostsOfHome exact defaultValues)))
        (Fin 75000)) \<and>
   (v_monthlyMaintenanceRate (trueCostsScope binary64 defaultValues) = Fin 75000 \<and>
    v_monthlyMaintenanceRate (trueCostsScope binary64 defaultValues) \<noteq> Fin (300000 * 3 / 100 / 12) \<and>
    totalMonthlyPayment (getTrueCostsOfHome binary64 defaultValues) =
      jadd binary64 (jadd binary64 (jadd binary64 (jadd binary64
          (mortgagePayment (getTrueCostsOfHome binary64 defaultValues))
          (monthlyPmi (getTrueCostsOfHome binary64 defaultValues)))
          (monthlyInsurance (getTrueCostsOfHome binary64 defaultValues)))
          (monthlyPropertyTax (getTrueCostsOfHome binary64 defaultValues)))
        (Fin 75000))"
proof -
  have e: "v_monthlyMaintenanceRate (trueCostsScope exact defaultValues) = Fin 75000"
    by (simp add: trueCostsScope_fields defaultValues_fields)
  have b: "v_monthlyMaintenanceRate (trueCostsScope binary64 defaultValues) = Fin 75000"
    by (simp add: trueCostsScope_fields defaultValues_fields binary64_numeral)
  have t: "totalMonthlyPayment (getTrueCostsOfHome rnd defaultValues) =
      jadd rnd (jadd rnd (jadd rnd (jadd rnd
          (mortgagePayment (getTrueCostsOfHome rnd defaultValues))
          (monthlyPmi (getTrueCostsOfHome rnd defaultValues)))
          (monthlyInsurance (getTrueCostsOfHome rnd defaultValues)))
          (monthlyPropertyTax (getTrueCostsOfHome rnd defaultValues)))
        (v_monthlyMaintenanceRate (trueCostsScope rnd defaultValues))" for rnd
    unfolding getTrueCostsOfHome_fields by (rule trueCostsScope_fields)
  show ?thesis using t [of exact] t [of binary64] unfolding e b by simp
qed

text \<open>
  Claim C2 says that with a rate of exactly zero \<^verbatim>\<open>getMonthlyMortgage\<close> returns
  \<open>P / (T * 12)\<close>. It does not: for 300000 over 30 years at the rate \<^verbatim>\<open>"0"\<close> the monthly
  rate is 0, \<open>x\<close> is \<open>Math.pow(1, 360) = 1\<close>, and the payment is \<open>0 / 0\<close>.
\<close>

theorem zero_rate_counterexample:
  "monthlyPayment (getMonthlyMortgage exact
      \<lparr>principal = Fin 300000, interestRate = ''0'', loanTermYears = Fin 30\<rparr>)
     \<noteq> Fin (300000 / (30 * 12)) \<and>
   monthlyPayment (getMonthlyMortgage binary64
      \<lparr>principal = Fin 300000, interestRate = ''0'', loanTermYears = Fin 30\<rparr>)
     \<noteq> Fin (300000 / (30 * 12))"
  using getMonthlyMortgage_zero_rate
    [of exact "\<lparr>principal = Fin 300000, interestRate = ''0'', loanTermYears = Fin 30\<rparr>" 300000 30]
    getMonthlyMortgage_zero_rate
    [of binary64 "\<lparr>principal = Fin 300000, interestRate = ''0'', loanTermYears = Fin 30\<rparr>" 300000 30]
  by (simp add: parseFloat_0 binary64_0 binary64_1)

text \<open>
  Claim C2, amended. With a principal \<open>P > 0\<close> and a term \<open>T > 0\<close>, when the annual rate is
  exactly zero, \<^verbatim>\<open>getMonthlyMortgage\<close> returns \<open>NaN\<close> (the formula divides zero by zero), and
  not \<open>P / (T * 12)\<close>; in doubles as over the reals.
\<close>

theorem zero_rate_gives_NaN:
  assumes "principal inputs = Fin P" "0 < P" "parseFloat exact (interestRate inputs) = Fin 0"
    "loanTermYears inputs = Fin T" "0 < T"
  shows "monthlyPayment (getMonthlyMortgage exact inputs) = NaN \<and>
         monthlyPayment (getMonthlyMortgage exact inputs) \<noteq> Fin (P / (T * 12)) \<and>
         (parseFloat binary64 (interestRate inputs) = Fin 0 \<longrightarrow>
            monthlyPayment (getMonthlyMortgage binary64 inputs) = NaN)"
  using getMonthlyMortgage_zero_rate [of exact, OF _ _ assms(1,3,4)]
    getMonthlyMortgage_zero_rate [of binary64, OF binary64_0 binary64_1 assms(1) _ assms(4)]
  by simp

theorem zero_rate_gives_NaN_witness:
  "monthlyPayment (getMonthlyMortgage exact
      \<lparr>principal = Fin 300000, interestRate = ''0'', loanTermYears = Fin 30\<rparr>) = NaN \<and>
   monthlyPayment (getMonthlyMortgage binary64
      \<lparr>principal = Fin 300000, interestRate = ''0'', loanTermYears = Fin 30\<rparr>) = NaN"
  using zero_rate_gives_NaN
    [of "\<lparr>principal = Fin 300000, interestRate = ''0'', loanTermYears = Fin 30\<rparr>" 300000 30]
  by (simp add: parseFloat_0 binary64_0)

text \<open>
  Claim C10. Two calls of \<^verbatim>\<open>getTrueCostsOfHome\<close> whose inputs differ in \<open>interestRate\<close>
  only give the same \<open>monthlyPmi\<close>, \<open>totalPmi\<close>, \<open>monthlyInsurance\<close>, \<open>totalInsurance\<close>,
  \<open>yearlyPropertyTax\<close>, \<open>monthlyPropertyTax\<close> and \<open>totalPropertyTax\<close>, whatever the
  rounding.
\<close>

theorem side_costs_independent_of_interestRate:
  assumes "principal a = principal b" "loanTermYears a = loanTermYears b"
    "pmiRate a = pmiRate b" "insuranceRate a = insuranceRate b"
    "propertyTaxRate a = propertyTaxRate b"
  shows "monthlyPmi (getTrueCostsOfHome rnd a) = monthlyPmi (getTrueCostsOfHome rnd b) \<and>
         totalPmi (getTrueCostsOfHome rnd a) = totalPmi (getTrueCostsOfHome rnd b) \<and>
         monthlyInsurance (getTrueCostsOfHome rnd a) = monthlyInsurance (getTrueCostsOfHome rnd b) \<and>
         totalInsurance (getTrueCostsOfHome rnd a) = totalInsurance (getTrueCostsOfHome rnd b) \<and>
         yearlyPropertyTax (getTrueCostsOfHome rnd a) = yearlyPropertyTax (getTrueCostsOfHome rnd b) \<and>
         monthlyPropertyTax (getTrueCostsOfHome rnd a) = monthlyPropertyTax (getTrueCostsOfHome rnd b) \<and>
         totalPropertyTax (getTrueCostsOfHome rnd a) = totalPropertyTax (getTrueCostsOfHome rnd b)"
  unfolding getTrueCostsOfHome_fields
  by (simp add: trueCostsScope_def Let_def assms)

theorem side_costs_independent_of_interestRate_witness:
  "interestRate (defaultValues\<lparr>interestRate := ''7.25''\<rparr>) \<noteq> interestRate defaultValues \<and>
   monthlyPmi (getTrueCostsOfHome binary64 (defaultValues\<lparr>interestRate := ''7.25''\<rparr>)) =
     monthlyPmi (getTrueCostsOfHome binary64 defaultValues) \<and>
   totalPmi (getTrueCostsOfHome binary64 (defaultValues\<lparr>interestRate := ''7.25''\<rparr>)) =
     totalPmi (getTrueCostsOfHome binary64 defaultValues) \<and>
   monthlyInsurance (getTrueCostsOfHome binary64 (defaultValues\<lparr>interestRate := ''7.25''\<rparr>)) =
     monthlyInsurance (getTrueCostsOfHome binary64 defaultValues) \<and>
   totalInsurance (getTrueCostsOfHome binary64 (defaultValues\<lparr>interestRate := ''7.25''\<rparr>)) =
     totalInsurance (getTrueCostsOfHome binary64 defaultValues) \<and>
   yearlyPropertyTax (getTrueCostsOfHome binary64 (defaultValues\<lparr>interestRate := ''7.25''\<rparr>)) =
     yearlyPropertyTax (getTrueCostsOfHome binary64 defaultValues) \<and>
   monthlyPropertyTax (getTrueCostsOfHome binary64 (defaultValues\<lparr>interestRate := ''7.25''\<rparr>)) =
     monthlyPropertyTax (getTrueCostsOfHome binary64 defaultValues) \<and>
   totalPropertyTax (getTrueCostsOfHome binary64 (defaultValues\<lparr>interestRate := ''7.25''\<rparr>)) =
     totalPropertyTax (getTrueCostsOfHome binary64 defaultValues)"
proof -
  have d: "interestRate (defaultValues\<lparr>interestRate := ''7.25''\<rparr>) \<noteq> interestRate defaultValues"
    by (simp add: defaultValues_def)
  have e: "principal (defaultValues\<lparr>interestRate := ''7.25''\<rparr>) = principal defaultValues"
    "loanTermYears (defaultValues\<lparr>interestRate := ''7.25''\<rparr>) = loanTermYears defaultValues"
    "pmiRate (defaultValues\<lparr>interestRate := ''7.25''\<rparr>) = pmiRate defaultValues"
    "insuranceRate (defaultValues\<lparr>interestRate := ''7.25''\<rparr>) = insuranceRate defaultValues"
    "propertyTaxRate (defaultValues\<lparr>interestRate := ''7.25''\<rparr>) = propertyTaxRate defaultValues"
    by simp_all
  show ?thesis
    using d side_costs_independent_of_interestRate [of _ defaultValues binary64, OF e]
    by (rule conjI)
qed

lemma defaultValues_payment_exact:
  "\<exists>M. monthlyPayment (getMonthlyMortgage exact defaultValues) = Fin M \<and>
       1520.055 < M \<and> M < 1520.06"
proof -
  have "monthlyPayment (getMonthlyMortgage exact defaultValues) =
     Fin (300000 * (1 + 9 / 2 / 100 / 12) powr (30 * 12) * (9 / 2 / 100 / 12)
          / ((1 + 9 / 2 / 100 / 12) powr (30 * 12) - 1))"
    using defaultValues_exact(1,2) _ defaultValues_exact(3)
    by (rule getMonthlyMortgage_pos_rate) simp_all
  moreover have "(1 + 9 / 2 / 100 / 12 :: real) powr (30 * 12) = (1 + 9 / 2 / 100 / 12) ^ 360"
  proof -
    have "(30 * 12 :: real) = real 360" by simp
    then show ?thesis by (simp only: powr_realpow)
  qed
  ultimately have m: "monthlyPayment (getMonthlyMortgage exact defaultValues) =
     Fin (300000 * (1 + 9 / 2 / 100 / 12) ^ 360 * (9 / 2 / 100 / 12)
          / ((1 + 9 / 2 / 100 / 12) ^ 360 - 1))"
    by (simp only:)
  have b: "(1 + 9 / 2 / 100 / 12 :: real) = 803 / 800" by simp
  note x = compound_factor_360 [OF b]
  have "(1520.055::real) < 300000 * (9 / 2 / 100 / 12) * (1 + 9 / 2 / 100 / 12) ^ 360
                     / ((1 + 9 / 2 / 100 / 12) ^ 360 - 1) \<and>
        300000 * (9 / 2 / 100 / 12) * (1 + 9 / 2 / 100 / 12) ^ 360
          / ((1 + 9 / 2 / 100 / 12) ^ 360 - 1) < (1520.06::real)"
    using conjunct1 [OF x] conjunct2 [OF x] by (rule annuity_bounds)
  moreover have "300000 * (9 / 2 / 100 / 12) * (1 + 9 / 2 / 100 / 12) ^ 360
      = 300000 * (1 + 9 / 2 / 100 / 12 :: real) ^ 360 * (9 / 2 / 100 / 12)"
    by (simp only: mult.assoc mult.commute [of "9 / 2 / 100 / 12"])
  ultimately show ?thesis using m by (simp only:) blast
qed

subsection \<open>The totals\<close>

text \<open>
  Claim C5. \<open>totalMonthlyPayment\<close> is the sum of the five monthly components, added from
  left to right: the payment of \<^verbatim>\<open>getMonthlyMortgage\<close>, the monthly PMI, the monthly
  insurance, the monthly property tax and the monthly maintenance, each computed from the
  inputs as stated. This holds for every input and whatever the rounding. Over the reals,
  when the principal, the rates and the payment are finite, it is the sum of the five
  numbers.
\<close>

theorem totalMonthlyPayment_is_sum_of_five:
  "(mortgagePayment (getTrueCostsOfHome rnd inputs) =
      monthlyPayment (getMonthlyMortgage rnd inputs) \<and>
    monthlyPmi (getTrueCostsOfHome rnd inputs) =
      jdiv rnd (jdiv rnd (jmul rnd (principal inputs) (parseFloat rnd (pmiRate inputs)))
        (Fin 100)) (Fin 12) \<and>
    monthlyInsurance (getTrueCostsOfHome rnd inputs) =
      jdiv rnd (jmul rnd (principal inputs)
        (jdiv rnd (parseFloat rnd (insuranceRate inputs)) (Fin 100))) (Fin 12) \<and>
    monthlyPropertyTax (getTrueCostsOfHome rnd inputs) =
      jdiv rnd (jdiv rnd (jmul rnd (principal inputs) (parseFloat rnd (propertyTaxRate inputs)))
        (Fin 100)) (Fin 12) \<and>
    v_monthlyMaintenanceRate (trueCostsScope rnd inputs) =
      jdiv rnd (jmul rnd (principal inputs) (rnd 3)) (Fin 12) \<and>
    totalMonthlyPayment (getTrueCostsOfHome rnd inputs) =
      jadd rnd (jadd rnd (jadd rnd (jadd rnd
          (mortgagePayment (getTrueCostsOfHome rnd inputs))
          (monthlyPmi (getTrueCostsOfHome rnd inputs)))
          (monthlyInsurance (getTrueCostsOfHome rnd inputs)))
          (monthlyPropertyTax (getTrueCostsOfHome rnd inputs)))
        (v_monthlyMaintenanceRate (trueCostsScope rnd inputs))) \<and>
   (principal inputs = Fin P \<longrightarrow> loanTermYears inputs = Fin T \<longrightarrow>
    parseFloat exact (pmiRate inputs) = Fin a \<longrightarrow>
    parseFloat exact (insuranceRate inputs) = Fin b \<longrightarrow>
    parseFloat exact (propertyTaxRate inputs) = Fin c \<longrightarrow>
    monthlyPayment (getMonthlyMortgage exact inputs) = Fin M \<longrightarrow>
      totalMonthlyPayment (getTrueCostsOfHome exact inputs) =
        Fin (M + P * a / 100 / 12 + P * b / 100 / 12 + P * c / 100 / 12 + P * 3 / 12))"
proof (intro conjI impI)
  assume h: "principal inputs = Fin P" "loanTermYears inputs = Fin T"
    "parseFloat exact (pmiRate inputs) = Fin a" "parseFloat exact (insuranceRate inputs) = Fin b"
    "parseFloat exact (propertyTaxRate inputs) = Fin c"
    "monthlyPayment (getMonthlyMortgage exact inputs) = Fin M"
  show "totalMonthlyPayment (getTrueCostsOfHome exact inputs) =
        Fin (M + P * a / 100 / 12 + P * b / 100 / 12 + P * c / 100 / 12 + P * 3 / 12)"
    unfolding getTrueCostsOfHome_fields trueCostsScope_exact [OF h] by simp
qed (simp_all add: getTrueCostsOfHome_fields trueCostsScope_fields)

theorem totalMonthlyPayment_is_sum_of_five_witness:
  "\<exists>M. monthlyPayment (getMonthlyMortgage exact defaultValues) = Fin M \<and>
       1520.055 < M \<and> M < 1520.06 \<and>
       totalMonthlyPayment (getTrueCostsOfHome exact defaultValues) =
         Fin (M + 125 + 87.5 + 87.5 + 75000)"
proof -
  from defaultValues_payment_exact obtain M where
    M: "monthlyPayment (getMonthlyMortgage exact defaultValues) = Fin M"
      "1520.055 < M" "M < 1520.06" by blast
  have "totalMonthlyPayment (getTrueCostsOfHome exact defaultValues) =
        Fin (M + 300000 * (1 / 2) / 100 / 12 + 300000 * (7 / 20) / 100 / 12
             + 300000 * (7 / 20) / 100 / 12 + 300000 * 3 / 12)"
    using totalMonthlyPayment_is_sum_of_five [of exact defaultValues 300000 30 "1 / 2" "7 / 20" "7 / 20" M]
      defaultValues_exact M(1) by blast
  then have "totalMonthlyPayment (getTrueCostsOfHome exact defaultValues) =
         Fin (M + 125 + 87.5 + 87.5 + 75000)" by simp
  with M show ?thesis by blast
qed

text \<open>
  Claim C4. \<open>totalCost\<close> is the sum of \<open>totalPrincipalAndInterest\<close> (the payment of
  \<^verbatim>\<open>getMonthlyMortgage\<close> times the number of payments, which is the term times 12),
  \<open>totalPmi\<close>, \<open>totalInsurance\<close> (the monthly values times the number of payments) and
  \<open>totalPropertyTax\<close> (the yearly tax times the term), for every input and whatever the
  rounding. The maintenance \<open>principal * 3 / 12\<close> is a term of \<open>totalMonthlyPayment\<close> and
  not of \<open>totalCost\<close>: over the reals, for finite values, \<open>totalCost\<close> is the sum of the
  four lifetime totals alone.
\<close>

theorem totalCost_is_sum_without_maintenance:
  "(totalCost (getTrueCostsOfHome rnd inputs) =
      jadd rnd (jadd rnd (jadd rnd
          (v_totalPrincipalAndInterest (trueCostsScope rnd inputs))
          (totalPmi (getTrueCostsOfHome rnd inputs)))
          (totalInsurance (getTrueCostsOfHome rnd inputs)))
        (totalPropertyTax (getTrueCostsOfHome rnd inputs)) \<and>
    v_totalPrincipalAndInterest (trueCostsScope rnd inputs) =
      jmul rnd (monthlyPayment (getMonthlyMortgage rnd inputs))
        (jmul rnd (loanTermYears inputs) (Fin 12)) \<and>
    totalPmi (getTrueCostsOfHome rnd inputs) =
      jmul rnd (monthlyPmi (getTrueCostsOfHome rnd inputs))
        (jmul rnd (loanTermYears inputs) (Fin 12)) \<and>
    totalInsurance (getTrueCostsOfHome rnd inputs) =
      jmul rnd (monthlyInsurance (getTrueCostsOfHome rnd inputs))
        (jmul rnd (loanTermYears inputs) (Fin 12)) \<and>
    totalPropertyTax (getTrueCostsOfHome rnd inputs) =
      jmul rnd (yearlyPropertyTax (getTrueCostsOfHome rnd inputs)) (loanTermYears inputs) \<and>
    totalMonthlyPayment (getTrueCostsOfHome rnd inputs) =
      jadd rnd (jadd rnd (jadd rnd (jadd rnd
          (mortgagePayment (getTrueCostsOfHome rnd inputs))
          (monthlyPmi (getTrueCostsOfHome rnd inputs)))
          (monthlyInsurance (getTrueCostsOfHome rnd inputs)))
          (monthlyPropertyTax (getTrueCostsOfHome rnd inputs)))
        (jdiv rnd (jmul rnd (principal inputs) (rnd 3)) (Fin 12))) \<and>
   (principal inputs = Fin P \<longrightarrow> loanTermYears inputs = Fin T \<longrightarrow>
    parseFloat exact (pmiRate inputs) = Fin a \<longrightarrow>
    parseFloat exact (insuranceRate inputs) = Fin b \<longrightarrow>
    parseFloat exact (propertyTaxRate inputs) = Fin c \<longrightarrow>
    monthlyPayment (getMonthlyMortgage exact inputs) = Fin M \<longrightarrow>
      totalCost (getTrueCostsOfHome exact inputs) =
        Fin (M * (T * 12) + P * a / 100 / 12 * (T * 12) + P * b / 100 / 12 * (T * 12)
             + P * c / 100 * T) \<and>
      totalMonthlyPayment (getTrueCostsOfHome exact inputs) =
        Fin (M + P * a / 100 / 12 + P * b / 100 / 12 + P * c / 100 / 12 + P * 3 / 12))"
proof (intro conjI impI)
  assume h: "principal inputs = Fin P" "loanTermYears inputs = Fin T"
    "parseFloat exact (pmiRate inputs) = Fin a" "parseFloat exact (insuranceRate inputs) = Fin b"
    "parseFloat exact (propertyTaxRate inputs) = Fin c"
    "monthlyPayment (getMonthlyMortgage exact inputs) = Fin M"
  show "totalCost (getTrueCostsOfHome exact inputs) =
        Fin (M * (T * 12) + P * a / 100 / 12 * (T * 12) + P * b / 100 / 12 * (T * 12)
             + P * c / 100 * T)"
    unfolding getTrueCostsOfHome_fields trueCostsScope_exact [OF h] by simp
  show "totalMonthlyPayment (getTrueCostsOfHome exact inputs) =
        Fin (M + P * a / 100 / 12 + P * b / 100 / 12 + P * c / 100 / 12 + P * 3 / 12)"
    unfolding getTrueCostsOfHome_fields trueCostsScope_exact [OF h] by simp
qed (simp_all add: getTrueCostsOfHome_fields trueCostsScope_fields)

theorem totalCost_is_sum_without_maintenance_witness:
  "\<exists>M. monthlyPayment (getMonthlyMortgage exact defaultValues) = Fin M \<and>
       1520.055 < M \<and> M < 1520.06 \<and>
       totalCost (getTrueCostsOfHome exact defaultValues) =
         Fin (M * 360 + 45000 + 31500 + 31500) \<and>
       totalMonthlyPayment (getTrueCostsOfHome exact defaultValues) =
         Fin (M + 125 + 87.5 + 87.5 + 75000)"
proof -
  from defaultValues_payment_exact obtain M where
    M: "monthlyPayment (getMonthlyMortgage exact defaultValues) = Fin M"
      "1520.055 < M" "M < 1520.06" by blast
  have "totalCost (getTrueCostsOfHome exact defaultValues) =
        Fin (M * (30 * 12) + 300000 * (1 / 2) / 100 / 12 * (30 * 12)
             + 300000 * (7 / 20) / 100 / 12 * (30 * 12) + 300000 * (7 / 20) / 100 * 30) \<and>
      totalMonthlyPayment (getTrueCostsOfHome exact defaultValues) =
        Fin (M + 300000 * (1 / 2) / 100 / 12 + 300000 * (7 / 20) / 100 / 12
             + 300000 * (7 / 20) / 100 / 12 + 300000 * 3 / 12)"
    using totalCost_is_sum_without_maintenance [of exact defaultValues 300000 30 "1 / 2" "7 / 20" "7 / 20" M]
      defaultValues_exact M(1) by blast
  then have "totalCost (getTrueCostsOfHome exact defaultValues) =
         Fin (M * 360 + 45000 + 31500 + 31500) \<and>
       totalMonthlyPayment (getTrueCostsOfHome exact defaultValues) =
         Fin (M + 125 + 87.5 + 87.5 + 75000)" by simp
  with M show ?thesis by blast
qed

text \<open>
  Claim C8. \<open>totalInterest\<close> is \<open>totalPrincipalAndInterest\<close> minus the principal, where
  \<open>totalPrincipalAndInterest\<close> is the payment of \<^verbatim>\<open>getMonthlyMortgage\<close> (the field
  \<open>mortgagePayment\<close>) times the number of payments, the term times 12; for every input and
  whatever the rounding. Over the reals, for a finite principal, term and payment \<open>M\<close>, it
  is \<open>M * (T * 12) - P\<close>.
\<close>

theorem totalInterest_is_total_paid_minus_principal:
  "(totalInterest (getTrueCostsOfHome rnd inputs) =
      jsub rnd (v_totalPrincipalAndInterest (trueCostsScope rnd inputs)) (principal inputs) \<and>
    v_totalPrincipalAndInterest (trueCostsScope rnd inputs) =
      jmul rnd (monthlyPayment (getMonthlyMortgage rnd inputs))
        (jmul rnd (loanTermYears inputs) (Fin 12)) \<and>
    mortgagePayment (getTrueCostsOfHome rnd inputs) =
      monthlyPayment (getMonthlyMortgage rnd inputs)) \<and>
   (principal inputs = Fin P \<longrightarrow> loanTermYears inputs = Fin T \<longrightarrow>
    monthlyPayment (getMonthlyMortgage exact inputs) = Fin M \<longrightarrow>
      totalInterest (getTrueCostsOfHome exact inputs) = Fin (M * (T * 12) - P))"
proof (intro conjI impI)
  assume h: "principal inputs = Fin P" "loanTermYears inputs = Fin T"
    "monthlyPayment (getMonthlyMortgage exact inputs) = Fin M"
  show "totalInterest (getTrueCostsOfHome exact inputs) = Fin (M * (T * 12) - P)"
    by (simp add: getTrueCostsOfHome_fields trueCostsScope_fields h jsub_def)
qed (simp_all add: getTrueCostsOfHome_fields trueCostsScope_fields)

theorem totalInterest_is_total_paid_minus_principal_witness:
  "\<exists>M. monthlyPayment (getMonthlyMortgage exact defaultValues) = Fin M \<and>
       1520.055 < M \<and> M < 1520.06 \<and>
       totalInterest (getTrueCostsOfHome exact defaultValues) = Fin (M * 360 - 300000)"
proof -
  from defaultValues_payment_exact obtain M where
    M: "monthlyPayment (getMonthlyMortgage exact defaultValues) = Fin M"
      "1520.055 < M" "M < 1520.06" by blast
  have "totalInterest (getTrueCostsOfHome exact defaultValues) = Fin (M * (30 * 12) - 300000)"
    using totalInterest_is_total_paid_minus_principal [of exact defaultValues 300000 30 M]
      defaultValues_exact(1,3) M(1) by blast
  then have "totalInterest (getTrueCostsOfHome exact defaultValues) = Fin (M * 360 - 300000)"
    by simp
  with M show ?thesis by blast
qed

subsection \<open>The monthly payment in doubles\<close>



end
